theory Spec2Isabelle
  imports Main "HOL-Library.DAList"
begin

section \<open>The language-model vocabulary of \<^verbatim>\<open>nltk/lm/vocabulary.py\<close>\<close>

subsection \<open>Python values and errors\<close>

text \<open>
  The two exceptions the module raises: \<^verbatim>\<open>ValueError\<close> from the constructor and
  \<^verbatim>\<open>TypeError\<close> from the fallback of the single-dispatch lookup. The message
  strings are not modelled.
\<close>

datatype error = ValueError | TypeError

text \<open>
  What \<^verbatim>\<open>lookup\<close> can be handed. \<^verbatim>\<open>singledispatch\<close> chooses by the class of the
  argument: \<^verbatim>\<open>str\<close> (registered, and more specific than \<^verbatim>\<open>Iterable\<close>), any
  other \<^verbatim>\<open>Iterable\<close> (here with the elements it yields, in order), or an object that
  is neither (an \<^verbatim>\<open>int\<close>, \<^verbatim>\<open>None\<close>, ...).
\<close>

datatype pyobj = Str string | Seq "pyobj list" | Other

subsection \<open>\<^verbatim>\<open>collections.Counter\<close>\<close>

text \<open>
  A \<^verbatim>\<open>Counter\<close> is a \<^verbatim>\<open>dict\<close>: keys are unique and kept in insertion order,
  assigning to a present key keeps its position, assigning to a new key appends it.
  That is the type of association lists with distinct keys, with its \<open>update\<close>.
  Counts are Python integers; a \<^verbatim>\<open>Counter\<close> handed to the constructor may hold any
  integer, also zero or a negative one.
\<close>

type_synonym counter = "(string, int) alist"

definition keys :: "counter \<Rightarrow> string list" where
  "keys c = map fst (DAList.impl_of c)"

text \<open>Truth value of a dictionary (\<^verbatim>\<open>if self.counts\<close>): it has at least one key.\<close>

definition truthy :: "counter \<Rightarrow> bool" where
  "truthy c = (DAList.impl_of c \<noteq> [])"

text \<open>\<^verbatim>\<open>mapping.get(elem, 0)\<close>.\<close>

definition counter_get :: "counter \<Rightarrow> string \<Rightarrow> int" where
  "counter_get c k = (case DAList.lookup c k of None \<Rightarrow> 0 | Some n \<Rightarrow> n)"

text \<open>
  \<^verbatim>\<open>counts[item]\<close>: the stored count, and for a missing key \<^verbatim>\<open>Counter.__missing__\<close>,
  which returns 0 and stores nothing. The counter after the read is returned next to
  the value.
\<close>

definition counter_getitem :: "counter \<Rightarrow> string \<Rightarrow> int \<times> counter" where
  "counter_getitem c k =
     (case DAList.lookup c k of None \<Rightarrow> (0, c) | Some n \<Rightarrow> (n, c))"

text \<open>
  \<^verbatim>\<open>Counter.update\<close> takes an iterable of elements to tally or a mapping of elements to
  counts (keyword arguments are not modelled).
\<close>

datatype counter_arg = Tokens "string list" | Pairs counter

text \<open>\<^verbatim>\<open>_count_elements\<close>: \<^verbatim>\<open>mapping[elem] = mapping.get(elem, 0) + 1\<close> for each element.\<close>

fun count_elements :: "counter \<Rightarrow> string list \<Rightarrow> counter" where
  "count_elements c [] = c"
| "count_elements c (elem # rest) =
     count_elements (DAList.update elem (counter_get c elem + 1) c) rest"

text \<open>\<^verbatim>\<open>self[elem] = count + self.get(elem, 0)\<close> for each item of a mapping.\<close>

fun add_items :: "counter \<Rightarrow> (string \<times> int) list \<Rightarrow> counter" where
  "add_items c [] = c"
| "add_items c ((elem, n) # rest) =
     add_items (DAList.update elem (n + counter_get c elem) c) rest"

text \<open>\<^verbatim>\<open>dict.update\<close>, the path \<^verbatim>\<open>Counter.update\<close> takes for a mapping when it is empty.\<close>

fun dict_update :: "counter \<Rightarrow> (string \<times> int) list \<Rightarrow> counter" where
  "dict_update c [] = c"
| "dict_update c ((elem, n) # rest) = dict_update (DAList.update elem n c) rest"

definition counter_update :: "counter \<Rightarrow> counter_arg \<Rightarrow> counter" where
  "counter_update c a =
     (case a of
        Tokens ts \<Rightarrow> count_elements c ts
      | Pairs m \<Rightarrow>
          if truthy c then add_items c (DAList.impl_of m)
          else dict_update c (DAList.impl_of m))"

subsection \<open>The class \<^verbatim>\<open>Vocabulary\<close>\<close>

text \<open>
  The three attributes of an instance; \<open>cutoff\<close> is \<^verbatim>\<open>_cutoff\<close>, read through the
  property of that name.
\<close>

record vocabulary =
  counts :: counter
  cutoff :: int
  unk_label :: string

text \<open>
  The \<^verbatim>\<open>counts\<close> argument of the constructor: a \<^verbatim>\<open>Counter\<close> (adopted as it is),
  another iterable (tallied into a new \<^verbatim>\<open>Counter\<close>), or anything else, \<^verbatim>\<open>None\<close>
  included (an empty \<^verbatim>\<open>Counter\<close>).
\<close>

datatype counts_arg = ACounter counter | AnIterable counter_arg | NoCounts

text \<open>
  \<^verbatim>\<open>__init__\<close>. The counts and the label are set before the cutoff is checked, and
  the exception leaves the caller without the object.
\<close>

definition init :: "counts_arg \<Rightarrow> int \<Rightarrow> string \<Rightarrow> error + vocabulary" where
  "init counts_in unk_cutoff label =
     (let c = (case counts_in of
                 ACounter c0 \<Rightarrow> c0
               | AnIterable it \<Rightarrow> counter_update DAList.empty it
               | NoCounts \<Rightarrow> DAList.empty)
      in if unk_cutoff < 1 then Inl ValueError
         else Inr \<lparr>counts = c, cutoff = unk_cutoff, unk_label = label\<rparr>)"

text \<open>
  \<^verbatim>\<open>update\<close> hands its argument to \<^verbatim>\<open>Counter.update\<close> and returns \<^verbatim>\<open>None\<close>,
  here the unit value, next to the vocabulary after the call.
\<close>

definition update :: "vocabulary \<Rightarrow> counter_arg \<Rightarrow> unit \<times> vocabulary" where
  "update self a = ((), self\<lparr>counts := counter_update (counts self) a\<rparr>)"

text \<open>
  The queries are written the same way, each returning its value and the vocabulary
  after the call, so that what they do to the object is part of the model.

  \<^verbatim>\<open>__getitem__\<close>: \<^verbatim>\<open>self._cutoff if item == self.unk_label else self.counts[item]\<close>.
\<close>

definition getitem :: "vocabulary \<Rightarrow> string \<Rightarrow> int \<times> vocabulary" where
  "getitem self item =
     (if item = unk_label self then (cutoff self, self)
      else (case counter_getitem (counts self) item of
              (n, c) \<Rightarrow> (n, self\<lparr>counts := c\<rparr>)))"

text \<open>\<^verbatim>\<open>__contains__\<close>: \<^verbatim>\<open>self[item] >= self.cutoff\<close>.\<close>

definition contains :: "vocabulary \<Rightarrow> string \<Rightarrow> bool \<times> vocabulary" where
  "contains self item =
     (case getitem self item of (n, self') \<Rightarrow> (n \<ge> cutoff self', self'))"

text \<open>
  \<^verbatim>\<open>__iter__\<close> chains the generator \<^verbatim>\<open>(item for item in self.counts if item in self)\<close>
  with \<^verbatim>\<open>[self.unk_label] if self.counts else []\<close>; the second argument is evaluated
  when \<^verbatim>\<open>__iter__\<close> is called. \<open>iter\<close> is the list a complete traversal yields when
  nothing else touches the object meanwhile; \<open>iter_items\<close> is the generator's loop over
  the keys.
\<close>

fun iter_items :: "string list \<Rightarrow> vocabulary \<Rightarrow> string list \<times> vocabulary" where
  "iter_items [] self = ([], self)"
| "iter_items (item # rest) self =
     (case contains self item of
        (b, self1) \<Rightarrow>
          (case iter_items rest self1 of
             (out, self2) \<Rightarrow> (if b then item # out else out, self2)))"

definition iter :: "vocabulary \<Rightarrow> string list \<times> vocabulary" where
  "iter self =
     (let tl_part = (if truthy (counts self) then [unk_label self] else [])
      in case iter_items (keys (counts self)) self of
           (out, self') \<Rightarrow> (out @ tl_part, self'))"

text \<open>\<^verbatim>\<open>__len__\<close>: \<^verbatim>\<open>sum(1 for _ in self)\<close>.\<close>

definition len :: "vocabulary \<Rightarrow> int \<times> vocabulary" where
  "len self =
     (case iter self of (items, self') \<Rightarrow> (sum_list (map (\<lambda>_. 1) items), self'))"

text \<open>
  \<^verbatim>\<open>_dispatched_lookup\<close>. For a string the answer is computed at once. For another
  iterable the call only builds the generator
  \<^verbatim>\<open>(_dispatched_lookup(w, vocab) for w in words)\<close>, which has done nothing yet:
  \<open>Generator words\<close> is that suspended loop. Anything else raises \<^verbatim>\<open>TypeError\<close>.
\<close>

datatype lookup_result = Word string | Generator "pyobj list"

fun dispatched_lookup :: "pyobj \<Rightarrow> vocabulary \<Rightarrow> (error + lookup_result) \<times> vocabulary" where
  "dispatched_lookup Other vocab = (Inl TypeError, vocab)"
| "dispatched_lookup (Seq words) vocab = (Inr (Generator words), vocab)"
| "dispatched_lookup (Str word) vocab =
     (case contains vocab word of
        (b, vocab') \<Rightarrow> (Inr (Word (if b then word else unk_label vocab')), vocab'))"

definition lookup :: "vocabulary \<Rightarrow> pyobj \<Rightarrow> (error + lookup_result) \<times> vocabulary" where
  "lookup self words = dispatched_lookup words self"

text \<open>
  Running a generator of \<^verbatim>\<open>lookup\<close> to its end, as \<^verbatim>\<open>list(vocab.lookup(ws))\<close> does:
  each word is looked up in turn, and the first exception ends the traversal.
\<close>

fun run_generator ::
  "pyobj list \<Rightarrow> vocabulary \<Rightarrow> (error + lookup_result list) \<times> vocabulary" where
  "run_generator [] vocab = (Inr [], vocab)"
| "run_generator (w # ws) vocab =
     (case dispatched_lookup w vocab of
        (Inl e, vocab1) \<Rightarrow> (Inl e, vocab1)
      | (Inr r, vocab1) \<Rightarrow>
          (case run_generator ws vocab1 of
             (Inl e, vocab2) \<Rightarrow> (Inl e, vocab2)
           | (Inr rs, vocab2) \<Rightarrow> (Inr (r # rs), vocab2)))"

subsection \<open>The vocabulary of the module's examples\<close>

text \<open>
  \<^verbatim>\<open>Vocabulary(words, unk_cutoff=2)\<close> for the word list of the module docstring; the
  constructor builds it (lemma \<open>init_words0\<close> below).
\<close>

definition words0 :: "string list" where
  "words0 = [''a'', ''c'', ''-'', ''d'', ''c'', ''a'', ''b'', ''r'', ''a'', ''c'', ''d'']"

definition vocab0 :: vocabulary where
  "vocab0 = \<lparr>counts = count_elements DAList.empty words0, cutoff = 2,
              unk_label = ''<UNK>''\<rparr>"

section \<open>What the queries compute\<close>

lemma counter_getitem_eq: "counter_getitem c k = (counter_get c k, c)"
  by (simp add: counter_getitem_def counter_get_def split: option.split)

lemma getitem_eq:
  "getitem v t = (if t = unk_label v then cutoff v else counter_get (counts v) t, v)"
  by (simp add: getitem_def counter_getitem_eq)

lemma contains_eq:
  "contains v t =
     ((if t = unk_label v then cutoff v else counter_get (counts v) t) \<ge> cutoff v, v)"
  by (simp add: contains_def getitem_eq)

lemma iter_items_eq:
  "iter_items ks v = (filter (\<lambda>t. fst (contains v t)) ks, v)"
  by (induction ks) (simp_all add: contains_eq)

lemma iter_eq:
  "iter v = (filter (\<lambda>t. fst (contains v t)) (keys (counts v)) @
               (if truthy (counts v) then [unk_label v] else []), v)"
  by (simp add: iter_def iter_items_eq Let_def)

lemma sum_ones: "sum_list (map (\<lambda>_. 1::int) xs) = int (length xs)"
  by (induction xs) simp_all

lemma len_eq: "len v = (int (length (fst (iter v))), v)"
  by (simp add: len_def iter_eq sum_ones split: prod.split)

lemma dispatched_lookup_frame: "snd (dispatched_lookup w v) = v"
  by (cases w) (simp_all add: contains_eq)

lemma run_generator_frame: "snd (run_generator ws v) = v"
proof (induction ws)
  case Nil
  show ?case by simp
next
  case (Cons w ws)
  obtain r where r: "dispatched_lookup w v = (r, v)"
    using dispatched_lookup_frame [of w v] by (cases "dispatched_lookup w v") simp
  obtain q where q: "run_generator ws v = (q, v)"
    using Cons.IH by (cases "run_generator ws v") simp
  show ?case
    by (simp add: r q split: sum.split)
qed

lemma run_generator_tokens:
  "run_generator (map Str ts) v =
     (Inr (map (\<lambda>t. Word (if fst (contains v t) then t else unk_label v)) ts), v)"
  by (induction ts) (simp_all add: contains_eq)

subsection \<open>The counter\<close>

lemma distinct_keys: "distinct (keys c)"
  by (simp add: keys_def)

lemma truthy_keys: "truthy c \<longleftrightarrow> keys c \<noteq> []"
  by (simp add: keys_def truthy_def)

lemma lookup_None_keys: "DAList.lookup c t = None \<longleftrightarrow> t \<notin> set (keys c)"
  by (simp add: lookup.rep_eq keys_def map_of_eq_None_iff)

lemma lookup_keys:
  "DAList.lookup c t = (if t \<in> set (keys c) then Some (counter_get c t) else None)"
  using lookup_None_keys [of c t] by (cases "DAList.lookup c t") (simp_all add: counter_get_def)

lemma counter_get_update:
  "counter_get (DAList.update k n c) t = (if t = k then n else counter_get c t)"
  by (simp add: counter_get_def DAList.lookup_update)

lemma keys_update: "set (keys (DAList.update k n c)) = insert k (set (keys c))"
  by (simp add: keys_def update.rep_eq AList.dom_update)

lemma count_elements_get:
  "counter_get (count_elements c ts) t = counter_get c t + int (count_list ts t)"
  by (induction ts arbitrary: c) (simp_all add: counter_get_update)

lemma count_elements_keys:
  "set (keys (count_elements c ts)) = set (keys c) \<union> set ts"
  by (induction ts arbitrary: c) (simp_all add: keys_update)

lemma count_list_filter_distinct:
  "distinct xs \<Longrightarrow> count_list (filter P xs) x = (if x \<in> set xs \<and> P x then 1 else 0)"
  by (induction xs) auto

text \<open>
  How many keys pass the membership test: those whose stored count reaches the cutoff,
  and the unknown label when it is a key whose stored count does not.
\<close>

lemma length_member_keys:
  fixes v :: vocabulary
  defines "K \<equiv> set (keys (counts v))"
  defines "S \<equiv> {t \<in> K. counter_get (counts v) t \<ge> cutoff v}"
  shows "length (filter (\<lambda>t. fst (contains v t)) (keys (counts v))) =
           card S + (if unk_label v \<in> K \<and> counter_get (counts v) (unk_label v) < cutoff v
                     then 1 else 0)"
proof -
  let ?P = "\<lambda>t. fst (contains v t)"
  let ?E = "if unk_label v \<in> K \<and> counter_get (counts v) (unk_label v) < cutoff v
            then {unk_label v} else {}"
  have "length (filter ?P (keys (counts v))) = card (set (filter ?P (keys (counts v))))"
    by (rule distinct_card [symmetric]) (simp add: distinct_keys)
  also have "set (filter ?P (keys (counts v))) = S \<union> ?E"
    by (auto simp: contains_eq S_def K_def)
  also have "card (S \<union> ?E) = card S + card ?E"
    by (rule card_Un_disjoint) (auto simp: S_def K_def)
  finally show ?thesis by simp
qed

subsection \<open>The examples of the docstrings\<close>

lemma init_words0: "init (AnIterable (Tokens words0)) 2 ''<UNK>'' = Inr vocab0"
  by (simp add: init_def vocab0_def counter_update_def)

lemma counts_vocab0:
  "DAList.impl_of (counts vocab0) =
     [(''a'', 3), (''c'', 3), (''-'', 1), (''d'', 2), (''b'', 1), (''r'', 1)]"
  by code_simp

lemma doctests_vocab0:
  "fst (getitem vocab0 ''c'') = 3" "fst (contains vocab0 ''c'')"
  "fst (getitem vocab0 ''d'') = 2" "fst (contains vocab0 ''d'')"
  "fst (getitem vocab0 ''b'') = 1" "\<not> fst (contains vocab0 ''b'')"
  "fst (getitem vocab0 ''aliens'') = 0" "\<not> fst (contains vocab0 ''aliens'')"
  "fst (contains vocab0 ''<UNK>'')"
  "fst (lookup vocab0 (Str ''a'')) = Inr (Word ''a'')"
  "fst (lookup vocab0 (Str ''aliens'')) = Inr (Word ''<UNK>'')"
  "fst (iter vocab0) = [''a'', ''c'', ''d'', ''<UNK>'']"
  "fst (len vocab0) = 4"
  by code_simp+

text \<open>
  A sequence holding something that is not a string: the call returns its generator, and
  the \<^verbatim>\<open>TypeError\<close> comes when the generator reaches that element.
\<close>

lemma lookup_sequence_with_other:
  "fst (lookup v (Seq [Str ''a'', Other])) = Inr (Generator [Str ''a'', Other])"
  "fst (run_generator [Str ''a'', Other] v) = Inl TypeError"
  by (simp_all add: lookup_def contains_eq)

section \<open>The claims\<close>

text \<open>
  Claim C1. For every vocabulary and every token other than the unknown label, the
  membership test is true exactly when the count stored for the token in \<open>counts\<close>,
  taken as 0 when the token is absent from \<open>counts\<close>, is at least the cutoff.
\<close>

theorem member_iff_stored_count:
  "t \<noteq> unk_label v \<Longrightarrow>
     fst (contains v t) \<longleftrightarrow>
       cutoff v \<le> (case DAList.lookup (counts v) t of None \<Rightarrow> 0 | Some n \<Rightarrow> n)"
  by (simp add: contains_eq counter_get_def)

theorem member_iff_stored_count_witness:
  "''d'' \<noteq> unk_label vocab0 \<and>
   (fst (contains vocab0 ''d'') \<longleftrightarrow>
      cutoff vocab0 \<le> (case DAList.lookup (counts vocab0) ''d'' of None \<Rightarrow> 0 | Some n \<Rightarrow> n)) \<and>
   fst (contains vocab0 ''d'')"
proof -
  have h: "''d'' \<noteq> unk_label vocab0"
    by (simp add: vocab0_def)
  have m: "fst (contains vocab0 ''d'')"
    by code_simp
  from member_iff_stored_count [OF h] h m show ?thesis
    by blast
qed

text \<open>
  Claim C2, as amended. Iterating a vocabulary yields the keys of \<open>counts\<close> that pass the
  membership test, in the order of \<open>counts\<close>, followed by the unknown label appended once
  exactly when \<open>counts\<close> is non-empty; with empty \<open>counts\<close> it yields nothing. The
  unknown label always passes the membership test, so it occurs twice in the output when
  it is itself a key of \<open>counts\<close>, once when \<open>counts\<close> is non-empty and does not hold it,
  and never when \<open>counts\<close> is empty.
\<close>

theorem iter_yields_members_then_unk_label:
  "fst (iter v) =
     filter (\<lambda>t. fst (contains v t)) (keys (counts v)) @
     (if truthy (counts v) then [unk_label v] else [])
   \<and> fst (iter (v\<lparr>counts := DAList.empty\<rparr>)) = []
   \<and> count_list (fst (iter v)) (unk_label v) =
       (if \<not> truthy (counts v) then 0
        else if unk_label v \<in> set (keys (counts v)) then 2 else 1)"
  by (simp add: iter_eq count_list_filter_distinct distinct_keys contains_eq
      truthy_keys keys_def empty.rep_eq)

text \<open>
  The claim as stated ends with "the unknown label appears at most once in the iteration
  output". \<^verbatim>\<open>Vocabulary(["<UNK>"], unk_cutoff=1)\<close> yields it twice.
\<close>

theorem iter_unk_label_twice:
  "(case init (AnIterable (Tokens [''<UNK>''])) 1 ''<UNK>'' of
      Inl e \<Rightarrow> False
    | Inr v \<Rightarrow>
        keys (counts v) = [''<UNK>''] \<and>
        fst (iter v) = [''<UNK>'', ''<UNK>''] \<and>
        \<not> count_list (fst (iter v)) (unk_label v) \<le> 1)"
  by code_simp

text \<open>
  Claim C3, as amended. For a vocabulary with non-empty \<open>counts\<close>, \<^verbatim>\<open>len\<close> is the number
  of distinct tokens in \<open>counts\<close> whose stored count is at least the cutoff, plus one for
  the appended unknown label, plus one more when the unknown label is itself a key of
  \<open>counts\<close> with a stored count below the cutoff (it passes the membership test all the
  same). With empty \<open>counts\<close>, \<^verbatim>\<open>len\<close> is 0.
\<close>

theorem len_counts_members_and_unk_label:
  "fst (len v) =
     (if truthy (counts v)
      then int (card {t \<in> set (keys (counts v)). counter_get (counts v) t \<ge> cutoff v}) + 1 +
           (if unk_label v \<in> set (keys (counts v)) \<and>
               counter_get (counts v) (unk_label v) < cutoff v then 1 else 0)
      else 0)"
  by (simp add: len_eq iter_eq length_member_keys truthy_keys)

text \<open>
  The claim as stated gives the number of tokens at or above the cutoff plus one.
  \<^verbatim>\<open>Vocabulary(["<UNK>"], unk_cutoff=2)\<close> stores one token, with count 1, below the
  cutoff: the claim's number is 1, and \<^verbatim>\<open>len\<close> is 2.
\<close>

theorem len_unk_label_below_cutoff:
  "(case init (AnIterable (Tokens [''<UNK>''])) 2 ''<UNK>'' of
      Inl e \<Rightarrow> False
    | Inr v \<Rightarrow>
        truthy (counts v) \<and>
        int (card {t \<in> set (keys (counts v)). counter_get (counts v) t \<ge> cutoff v}) + 1 = 1 \<and>
        fst (len v) = 2)"
  by code_simp

text \<open>
  Claim C4. The count lookup returns the cutoff for the unknown label, also when the
  unknown label is a key of \<open>counts\<close> with whatever stored count, and for every other
  token the count stored in \<open>counts\<close>, 0 for a token \<open>counts\<close> does not hold.
\<close>

theorem getitem_unk_label_or_stored:
  "fst (getitem v (unk_label v)) = cutoff v
   \<and> fst (getitem (v\<lparr>counts := DAList.update (unk_label v) n (counts v)\<rparr>) (unk_label v))
       = cutoff v
   \<and> fst (getitem v t) =
       (if t = unk_label v then cutoff v
        else case DAList.lookup (counts v) t of None \<Rightarrow> 0 | Some n \<Rightarrow> n)"
  by (simp add: getitem_eq counter_get_def)

text \<open>
  Claim C5. \<^verbatim>\<open>lookup\<close> of a single token returns the token when it is a member and the
  unknown label otherwise. \<^verbatim>\<open>lookup\<close> of a sequence of tokens returns a generator over
  that sequence, and running it gives one result per input token, in order, each the
  single-token lookup of its token. On the example vocabulary with cutoff 2,
  \<^verbatim>\<open>["p","a","r","d","b","c"]\<close> gives \<^verbatim>\<open>["<UNK>","a","<UNK>","d","<UNK>","c"]\<close>.
\<close>

theorem lookup_token_and_sequence:
  "fst (lookup v (Str t)) = Inr (Word (if fst (contains v t) then t else unk_label v))
   \<and> fst (lookup v (Seq (map Str ts))) = Inr (Generator (map Str ts))
   \<and> fst (run_generator (map Str ts) v) =
       Inr (map (\<lambda>t. Word (if fst (contains v t) then t else unk_label v)) ts)
   \<and> map (\<lambda>t. fst (lookup v (Str t))) ts =
       map Inr (map (\<lambda>t. Word (if fst (contains v t) then t else unk_label v)) ts)
   \<and> init (AnIterable (Tokens words0)) 2 ''<UNK>'' = Inr vocab0
   \<and> fst (run_generator (map Str [''p'', ''a'', ''r'', ''d'', ''b'', ''c'']) vocab0) =
       Inr (map Word [''<UNK>'', ''a'', ''<UNK>'', ''d'', ''<UNK>'', ''c''])"
proof -
  have single: "fst (lookup v (Str t)) =
      Inr (Word (if fst (contains v t) then t else unk_label v))" for v t
    by (simp add: lookup_def contains_eq)
  have seq: "fst (lookup v (Seq (map Str ts))) = Inr (Generator (map Str ts))"
    by (simp add: lookup_def)
  have run: "fst (run_generator (map Str ts) v) =
      Inr (map (\<lambda>t. Word (if fst (contains v t) then t else unk_label v)) ts)"
    by (simp add: run_generator_tokens)
  have each: "map (\<lambda>t. fst (lookup v (Str t))) ts =
      map Inr (map (\<lambda>t. Word (if fst (contains v t) then t else unk_label v)) ts)"
    by (simp add: single)
  have example:
    "fst (run_generator (map Str [''p'', ''a'', ''r'', ''d'', ''b'', ''c'']) vocab0) =
       Inr (map Word [''<UNK>'', ''a'', ''<UNK>'', ''d'', ''<UNK>'', ''c''])"
    by code_simp
  from single [of v t] seq run each init_words0 example show ?thesis
    by (intro conjI)
qed

text \<open>
  Claim C6. After \<^verbatim>\<open>update(ts)\<close> with a sequence of tokens \<open>ts\<close>, the count stored for
  every token is its count before the call plus the number of its occurrences in \<open>ts\<close>
  (absent counting as 0); the keys are those of before together with the tokens of
  \<open>ts\<close>; cutoff and unknown label are as before; and the call returns \<^verbatim>\<open>None\<close>. On the
  example vocabulary, \<^verbatim>\<open>update(["b","b","c"])\<close> takes the count of \<^verbatim>\<open>b\<close> from 1 to 3 and
  makes \<^verbatim>\<open>b\<close> a member.
\<close>

theorem update_adds_occurrences:
  "fst (update v (Tokens ts)) = ()
   \<and> counter_get (counts (snd (update v (Tokens ts)))) t =
       counter_get (counts v) t + int (count_list ts t)
   \<and> DAList.lookup (counts (snd (update v (Tokens ts)))) t =
       (if t \<in> set (keys (counts v)) \<union> set ts
        then Some (counter_get (counts v) t + int (count_list ts t)) else None)
   \<and> cutoff (snd (update v (Tokens ts))) = cutoff v
   \<and> unk_label (snd (update v (Tokens ts))) = unk_label v
   \<and> fst (getitem vocab0 ''b'') = 1
   \<and> \<not> fst (contains vocab0 ''b'')
   \<and> fst (getitem (snd (update vocab0 (Tokens [''b'', ''b'', ''c'']))) ''b'') = 3
   \<and> fst (contains (snd (update vocab0 (Tokens [''b'', ''b'', ''c'']))) ''b'')"
proof -
  have after: "counts (snd (update v (Tokens ts))) = count_elements (counts v) ts"
    by (simp add: update_def counter_update_def)
  have stored: "counter_get (counts (snd (update v (Tokens ts)))) t =
      counter_get (counts v) t + int (count_list ts t)"
    by (simp add: after count_elements_get)
  have entry: "DAList.lookup (counts (snd (update v (Tokens ts)))) t =
      (if t \<in> set (keys (counts v)) \<union> set ts
       then Some (counter_get (counts v) t + int (count_list ts t)) else None)"
    by (simp add: after lookup_keys [of "count_elements (counts v) ts"]
        count_elements_keys count_elements_get)
  have rest: "cutoff (snd (update v (Tokens ts))) = cutoff v"
    "unk_label (snd (update v (Tokens ts))) = unk_label v"
    by (simp_all add: update_def)
  have b1: "fst (getitem vocab0 ''b'') = 1" by code_simp
  have b2: "\<not> fst (contains vocab0 ''b'')" by code_simp
  have b3: "fst (getitem (snd (update vocab0 (Tokens [''b'', ''b'', ''c'']))) ''b'') = 3"
    by code_simp
  have b4: "fst (contains (snd (update vocab0 (Tokens [''b'', ''b'', ''c'']))) ''b'')"
    by code_simp
  from stored entry rest b1 b2 b3 b4 show ?thesis
    by simp
qed

text \<open>
  Claim C7. The constructor fails, with \<^verbatim>\<open>ValueError\<close>, exactly when \<^verbatim>\<open>unk_cutoff < 1\<close>;
  a failed construction yields an error and no vocabulary; a successful one yields a
  vocabulary whose cutoff is \<^verbatim>\<open>unk_cutoff\<close> (and whose label is the one given).
\<close>

theorem init_fails_iff_cutoff_below_one:
  "(init c k l = Inl ValueError \<longleftrightarrow> k < 1)
   \<and> (isl (init c k l) \<longleftrightarrow> k < 1)
   \<and> ((\<exists>v. init c k l = Inr v) \<longleftrightarrow> 1 \<le> k)
   \<and> (case init c k l of
         Inl e \<Rightarrow> e = ValueError \<and> k < 1
       | Inr v \<Rightarrow> cutoff v = k \<and> unk_label v = l \<and> 1 \<le> k)"
  by (simp add: init_def Let_def)

text \<open>
  Claim C8. The call \<^verbatim>\<open>lookup(x)\<close> raises, and what it raises is \<^verbatim>\<open>TypeError\<close>, exactly
  when \<open>x\<close> is neither a string nor a sequence; for a string and for a sequence the call
  raises nothing, and the generator returned for a sequence of tokens runs to its end
  without an error.
\<close>

theorem lookup_type_error_iff:
  "(fst (lookup v x) = Inl TypeError \<longleftrightarrow> (\<forall>s. x \<noteq> Str s) \<and> (\<forall>ws. x \<noteq> Seq ws))
   \<and> (isl (fst (lookup v x)) \<longleftrightarrow> (\<forall>s. x \<noteq> Str s) \<and> (\<forall>ws. x \<noteq> Seq ws))
   \<and> \<not> isl (fst (lookup v (Str s)))
   \<and> \<not> isl (fst (lookup v (Seq ws)))
   \<and> \<not> isl (fst (run_generator (map Str ts) v))
   \<and> fst (lookup v Other) = Inl TypeError"
  by (cases x) (simp_all add: lookup_def contains_eq run_generator_tokens)

text \<open>
  Claim C9. In every vocabulary state the unknown label passes the membership test and
  \<^verbatim>\<open>lookup\<close> of the unknown label returns it; this holds as well when \<open>counts\<close> is empty,
  where iteration yields nothing.
\<close>

theorem unk_label_always_member:
  "fst (contains v (unk_label v))
   \<and> fst (lookup v (Str (unk_label v))) = Inr (Word (unk_label v))
   \<and> fst (contains (v\<lparr>counts := DAList.empty\<rparr>) (unk_label v))
   \<and> fst (lookup (v\<lparr>counts := DAList.empty\<rparr>) (Str (unk_label v))) = Inr (Word (unk_label v))
   \<and> fst (iter (v\<lparr>counts := DAList.empty\<rparr>)) = []"
  by (simp add: contains_eq lookup_def iter_eq truthy_def keys_def empty.rep_eq)

text \<open>
  Claim C10, as amended. Count lookup, membership test, \<^verbatim>\<open>lookup\<close> (the call, and
  running the generator it returns), iteration and \<^verbatim>\<open>len\<close> return the vocabulary as they
  found it: same \<open>counts\<close>, cutoff and unknown label. For a token that \<open>counts\<close> does not
  hold and that is not the unknown label, in a vocabulary whose cutoff is at least 1 (as
  the constructor guarantees), the count lookup returns 0 and the membership test False,
  and \<open>counts\<close> still does not hold the token. For the unknown label, held by \<open>counts\<close>
  or not, the count lookup returns the cutoff and the membership test True, again with
  the vocabulary unchanged.
\<close>

theorem queries_leave_vocabulary:
  "snd (getitem v t) = v
   \<and> snd (contains v t) = v
   \<and> snd (lookup v x) = v
   \<and> snd (run_generator ws v) = v
   \<and> snd (iter v) = v
   \<and> snd (len v) = v
   \<and> (t \<noteq> unk_label v \<and> DAList.lookup (counts v) t = None \<and> 1 \<le> cutoff v \<longrightarrow>
        getitem v t = (0, v) \<and> contains v t = (False, v) \<and>
        DAList.lookup (counts (snd (getitem v t))) t = None \<and>
        DAList.lookup (counts (snd (contains v t))) t = None)
   \<and> getitem v (unk_label v) = (cutoff v, v)
   \<and> contains v (unk_label v) = (True, v)"
  by (simp add: getitem_eq contains_eq lookup_def dispatched_lookup_frame
      run_generator_frame iter_eq len_eq counter_get_def)

theorem queries_leave_vocabulary_witness:
  "''aliens'' \<noteq> unk_label vocab0
   \<and> DAList.lookup (counts vocab0) ''aliens'' = None
   \<and> 1 \<le> cutoff vocab0
   \<and> getitem vocab0 ''aliens'' = (0, vocab0)
   \<and> contains vocab0 ''aliens'' = (False, vocab0)
   \<and> snd (lookup vocab0 (Seq [Str ''aliens''])) = vocab0
   \<and> snd (run_generator [Str ''aliens''] vocab0) = vocab0
   \<and> snd (iter vocab0) = vocab0
   \<and> snd (len vocab0) = vocab0
   \<and> getitem vocab0 (unk_label vocab0) = (cutoff vocab0, vocab0)
   \<and> contains vocab0 (unk_label vocab0) = (True, vocab0)"
proof -
  have h1: "''aliens'' \<noteq> unk_label vocab0"
    by (simp add: vocab0_def)
  have h2: "DAList.lookup (counts vocab0) ''aliens'' = None"
    by code_simp
  have h3: "1 \<le> cutoff vocab0"
    by (simp add: vocab0_def)
  from queries_leave_vocabulary
         [of vocab0 "''aliens''" "Seq [Str ''aliens'']" "[Str ''aliens'']"] h1 h2 h3
  show ?thesis
    by blast
qed

text \<open>
  The claim as stated has the count and the membership of every never-observed token be
  0 and False. In the vocabulary of the module docstring the unknown label was never
  observed and is no key of \<open>counts\<close>, yet \<^verbatim>\<open>vocab["<UNK>"]\<close> is the cutoff 2 and
  \<^verbatim>\<open>"<UNK>" in vocab\<close> is True, as the docstring itself shows.
\<close>

theorem unseen_unk_label_not_zero_false:
  "(case init (AnIterable (Tokens words0)) 2 ''<UNK>'' of
      Inl e \<Rightarrow> False
    | Inr v \<Rightarrow>
        DAList.lookup (counts v) (unk_label v) = None \<and>
        unk_label v \<notin> set (keys (counts v)) \<and>
        count_list words0 (unk_label v) = 0 \<and>
        fst (getitem v (unk_label v)) = 2 \<and>
        fst (contains v (unk_label v)) \<and>
        \<not> (fst (getitem v (unk_label v)) = 0 \<and> \<not> fst (contains v (unk_label v))))"
  by code_simp

end
